theory Spec2Isabelle
  imports Main "HOL-Library.Sublist"
begin

section \<open>Data model (src/models.py)\<close>

datatype platform = REDDIT | TWITTER

datatype post_type = POST | COMMENT | TWEET | REPLY

datatype scraping_strategy = API | WEB | BROWSER | FEED | ALTERNATIVE

text \<open>
  \<^verbatim>\<open>ScrapedPost\<close>: the required fields of the pydantic model. The field \<^verbatim>\<open>id\<close> is
  called \<open>post_id\<close> here; the optional engagement metrics play no part in the
  orchestration code and are left out.
\<close>

record scraped_post =
  post_id :: string
  post_platform :: platform
  post_kind :: post_type
  author :: string
  content :: string
  url :: string

section \<open>Exceptions\<close>

text \<open>
  Every \<^verbatim>\<open>raise\<close> of the orchestration code is a constructor. The manager's
  messages interpolate the platform and the last error, which are kept as arguments.
  \<open>ScraperError\<close> stands for any \<^verbatim>\<open>Exception\<close> an adapter raises while it is drained.
  \<open>IntegrityError\<close> is SQLAlchemy's, for a second row under a primary key.
  \<open>ClientResponseError\<close> (with the HTTP status) and \<open>ClientConnectionError\<close> are the
  aiohttp exceptions, both subclasses of \<^verbatim>\<open>aiohttp.ClientError\<close>; \<open>TimeoutError\<close> is
  \<^verbatim>\<open>asyncio.TimeoutError\<close>; \<open>RetryError\<close> is what tenacity raises when it gives up.
\<close>

datatype exn =
    NoScrapersAvailable platform
  | NoWorkingScrapers platform
  | NoStrategiesAvailable platform
  | AllStrategiesFailed platform "exn option"
  | NoSearchCapableScrapers platform
  | AllSearchStrategiesFailed platform "exn option"
  | ScraperError string
  | KeyError string
  | AttributeError string
  | IntegrityError string
  | ClientResponseError int
  | ClientConnectionError string
  | TimeoutError
  | JSONDecodeError string
  | RetryError exn

text \<open>
  \<^verbatim>\<open>ValueError\<close> is raised at manager.py lines 110, 115, 133, 170 and 182; lines 158 and
  216 raise a plain \<^verbatim>\<open>Exception\<close>.
\<close>

fun is_ValueError :: "exn \<Rightarrow> bool" where
  "is_ValueError (NoScrapersAvailable _) = True"
| "is_ValueError (NoWorkingScrapers _) = True"
| "is_ValueError (NoStrategiesAvailable _) = True"
| "is_ValueError (NoSearchCapableScrapers _) = True"
| "is_ValueError _ = False"

section \<open>Strategy adapters (src/scrapers/base.py)\<close>

text \<open>
  Draining an async generator (\<^verbatim>\<open>async for post in ...: posts.append(post)\<close>) either
  ends normally with the posts it yielded, or raises after having yielded some. The
  exception is an \<^verbatim>\<open>Exception\<close>, which the handlers of the callers catch; cancellation
  (\<^verbatim>\<open>CancelledError\<close>, not an \<^verbatim>\<open>Exception\<close>) is no outcome of a drain here.
\<close>

datatype drain = Yielded "scraped_post list" | Raised "scraped_post list" exn

text \<open>What a drained attempt shows to the caller: no post at all, and the exception raised.\<close>

fun no_posts :: "drain \<Rightarrow> bool" where
  "no_posts (Yielded posts) = (posts = [])"
| "no_posts (Raised partial e) = True"

fun raised_error :: "drain \<Rightarrow> exn option" where
  "raised_error (Yielded posts) = None"
| "raised_error (Raised partial e) = Some e"

text \<open>
  An adapter object as the manager sees it. \<open>scrape_search\<close> is \<open>None\<close> when the
  class has no attribute of that name (\<^verbatim>\<open>hasattr(scraper, 'scrape_search')\<close> is false).
\<close>

record scraper =
  scrape_posts :: "string \<Rightarrow> int \<Rightarrow> drain"
  scrape_search :: "(string \<Rightarrow> int \<Rightarrow> drain) option"
  scrape_comments :: "string \<Rightarrow> drain"

section \<open>Jobs and the database (src/models.py, src/database.py)\<close>

text \<open>\<^verbatim>\<open>ScrapingJob\<close>, the pydantic model; timestamps are numbers read from the clock.\<close>

record scraping_job =
  job_id :: string
  job_platform :: platform
  job_target :: string
  job_max_posts :: int
  include_comments :: bool
  job_keywords :: "string list"
  created_at :: int
  status :: string

text \<open>
  The entries of a job's error list: \<^verbatim>\<open>str(e)\<close>, and the three prefixed messages of
  \<^verbatim>\<open>run_scraping_job\<close>.
\<close>

datatype job_error =
    Str exn
  | Post_processing_error exn
  | Comment_save_error exn
  | Job_failed exn

text \<open>
  A row of the table \<^verbatim>\<open>scraping_jobs\<close> (\<^verbatim>\<open>ScrapingJobDB\<close>): the job's columns and the
  result columns, whose defaults are 0, NULL and False.
\<close>

record job_row = scraping_job +
  posts_scraped :: int
  comments_scraped :: int
  errors :: "job_error list option"
  started_at :: "int option"
  completed_at :: "int option"
  success :: bool

text \<open>
  The two tables, each keyed by its primary key (\<^verbatim>\<open>scraped_posts.id\<close>,
  \<^verbatim>\<open>scraping_jobs.job_id\<close>).
\<close>

record database =
  scraped_posts :: "string \<rightharpoonup> scraped_post"
  scraping_jobs :: "string \<rightharpoonup> job_row"

definition empty_db :: database where
  "empty_db = \<lparr> scraped_posts = Map.empty, scraping_jobs = Map.empty \<rparr>"

text \<open>
  \<^verbatim>\<open>save_post\<close> (database.py lines 128-135) builds a new row object, adds it to a new
  session and commits: an INSERT. A row with the same primary key makes the commit raise
  \<^verbatim>\<open>IntegrityError\<close>, and the session is closed without the row. There is no merge.
\<close>

definition save_post :: "database \<Rightarrow> scraped_post \<Rightarrow> (exn + string) \<times> database" where
  "save_post db post_data =
     (if post_id post_data \<in> dom (scraped_posts db)
      then (Inl (IntegrityError ''scraped_posts.id''), db)
      else (Inr (post_id post_data),
            db\<lparr> scraped_posts := (scraped_posts db)(post_id post_data \<mapsto> post_data) \<rparr>))"

text \<open>\<^verbatim>\<open>save_job\<close> (lines 137-144): the same INSERT, with the column defaults.\<close>

definition save_job :: "database \<Rightarrow> scraping_job \<Rightarrow> (exn + string) \<times> database" where
  "save_job db job_data =
     (if job_id job_data \<in> dom (scraping_jobs db)
      then (Inl (IntegrityError ''scraping_jobs.job_id''), db)
      else (Inr (job_id job_data),
            db\<lparr> scraping_jobs := (scraping_jobs db)(job_id job_data \<mapsto>
              scraping_job.extend job_data
                (job_row.fields 0 0 None None None False)) \<rparr>))"

text \<open>The keyword arguments \<^verbatim>\<open>update_job_status\<close> is called with; each names a column.\<close>

datatype job_field =
    Started_at int
  | Completed_at int
  | Posts_scraped int
  | Comments_scraped int
  | Success bool
  | Errors "job_error list"

fun setattr :: "job_field \<Rightarrow> job_row \<Rightarrow> job_row" where
  "setattr (Started_at t) job = job\<lparr> started_at := Some t \<rparr>"
| "setattr (Completed_at t) job = job\<lparr> completed_at := Some t \<rparr>"
| "setattr (Posts_scraped n) job = job\<lparr> posts_scraped := n \<rparr>"
| "setattr (Comments_scraped n) job = job\<lparr> comments_scraped := n \<rparr>"
| "setattr (Success b) job = job\<lparr> success := b \<rparr>"
| "setattr (Errors es) job = job\<lparr> errors := Some es \<rparr>"

text \<open>
  \<^verbatim>\<open>update_job_status\<close> (lines 146-155): nothing happens when the query finds no row.
\<close>

definition update_job_status :: "database \<Rightarrow> string \<Rightarrow> string \<Rightarrow> job_field list \<Rightarrow> database" where
  "update_job_status db jid new_status kwargs =
     (case scraping_jobs db jid of
        None \<Rightarrow> db
      | Some job \<Rightarrow>
          db\<lparr> scraping_jobs := (scraping_jobs db)(jid \<mapsto>
            fold setattr kwargs (job\<lparr> status := new_status \<rparr>)) \<rparr>)"

text \<open>\<^verbatim>\<open>DatabaseManager.get_job_status\<close> (lines 164-167).\<close>

definition db_get_job_status :: "database \<Rightarrow> string \<Rightarrow> job_row option" where
  "db_get_job_status db jid = scraping_jobs db jid"

section \<open>The manager (src/scrapers/manager.py)\<close>

text \<open>
  The handle kept in \<^verbatim>\<open>active_jobs\<close>: the task \<^verbatim>\<open>start_job\<close> creates around the coroutine
  \<^verbatim>\<open>scraper.run_scraping_job(job)\<close>, with the adapter and the job it was called on, and
  whether the task has finished.
\<close>

record task =
  task_scraper :: scraper
  task_job :: scraping_job
  task_done :: bool

text \<open>
  \<^verbatim>\<open>self.strategies\<close> is a dict of dicts; the inner dict keeps insertion order, which
  \<^verbatim>\<open>scrape_search_with_fallback\<close> iterates, so it is an association list.
  \<^verbatim>\<open>__init__\<close> assigns \<^verbatim>\<open>strategies\<close> and \<^verbatim>\<open>active_jobs\<close> only; \<^verbatim>\<open>self.scrapers\<close>, which
  \<^verbatim>\<open>start_job\<close> reads, is \<open>None\<close> while the attribute does not exist.
\<close>

record manager =
  strategies :: "platform \<rightharpoonup> (scraping_strategy \<times> scraper) list"
  active_jobs :: "string \<rightharpoonup> task"
  scrapers :: "(platform \<rightharpoonup> scraper) option"

definition init_manager :: manager where
  "init_manager = \<lparr> strategies = Map.empty, active_jobs = Map.empty, scrapers = None \<rparr>"

subsection \<open>Try-order (manager.py lines 117-130)\<close>

text \<open>
  \<^verbatim>\<open>for strategy in order: if cond(strategy): strategies_to_try.append(strategy)\<close>
\<close>

fun append_each :: "(scraping_strategy \<Rightarrow> bool) \<Rightarrow> scraping_strategy list \<Rightarrow>
    scraping_strategy list \<Rightarrow> scraping_strategy list" where
  "append_each cond [] strategies_to_try = strategies_to_try"
| "append_each cond (strategy # order) strategies_to_try =
     append_each cond order
       (if cond strategy then strategies_to_try @ [strategy] else strategies_to_try)"

definition default_order :: "scraping_strategy list" where
  "default_order = [WEB, FEED, API]"

definition strategies_to_try :: "scraping_strategy list \<Rightarrow> scraping_strategy option \<Rightarrow>
    scraping_strategy list" where
  "strategies_to_try available_strategies preferred_strategy =
     (case preferred_strategy of
        Some preferred \<Rightarrow>
          if preferred \<in> set available_strategies
          then append_each (\<lambda>s. s \<noteq> preferred \<and> s \<in> set available_strategies)
                 [WEB, FEED, API] [preferred]
          else append_each (\<lambda>s. s \<in> set available_strategies) default_order []
      | None \<Rightarrow> append_each (\<lambda>s. s \<in> set available_strategies) default_order [])"

subsection \<open>scrape_with_fallback (manager.py lines 91-158)\<close>

text \<open>
  One pass of the loop body up to the end of the \<^verbatim>\<open>async for\<close> (lines 139-144). The
  lookup \<^verbatim>\<open>self.strategies[platform][strategy]\<close> stands inside the \<^verbatim>\<open>try\<close>, so a
  missing key is a \<^verbatim>\<open>KeyError\<close> raised there.
\<close>

definition attempt :: "manager \<Rightarrow> platform \<Rightarrow> string \<Rightarrow> int \<Rightarrow> scraping_strategy \<Rightarrow> drain" where
  "attempt self platform target max_posts strategy =
     (case strategies self platform of
        None \<Rightarrow> Raised [] (KeyError ''platform'')
      | Some registry \<Rightarrow>
         (case map_of registry strategy of
            None \<Rightarrow> Raised [] (KeyError ''strategy'')
          | Some scraper \<Rightarrow> scrape_posts scraper target max_posts))"

text \<open>
  The loop of lines 137-156, with \<^verbatim>\<open>last_error\<close> as the accumulator. An adapter that
  raises loses the posts it had yielded: the handler only records the exception.
\<close>

fun try_strategies :: "manager \<Rightarrow> platform \<Rightarrow> string \<Rightarrow> int \<Rightarrow> scraping_strategy list \<Rightarrow>
    exn option \<Rightarrow> (exn + scraped_post list) \<times> manager" where
  "try_strategies self platform target max_posts [] last_error =
     (Inl (AllStrategiesFailed platform last_error), self)"
| "try_strategies self platform target max_posts (strategy # rest) last_error =
     (case attempt self platform target max_posts strategy of
        Yielded posts \<Rightarrow>
          if posts \<noteq> [] then (Inr posts, self)
          else try_strategies self platform target max_posts rest last_error
      | Raised partial e \<Rightarrow>
          try_strategies self platform target max_posts rest (Some e))"

definition scrape_with_fallback :: "manager \<Rightarrow> platform \<Rightarrow> string \<Rightarrow> int \<Rightarrow>
    scraping_strategy option \<Rightarrow> (exn + scraped_post list) \<times> manager" where
  "scrape_with_fallback self platform target max_posts preferred_strategy =
     (case strategies self platform of
        None \<Rightarrow> (Inl (NoScrapersAvailable platform), self)
      | Some registry \<Rightarrow>
          let available_strategies = map fst registry in
          if available_strategies = [] then (Inl (NoWorkingScrapers platform), self)
          else
            let order = strategies_to_try available_strategies preferred_strategy in
            if order = [] then (Inl (NoStrategiesAvailable platform), self)
            else try_strategies self platform target max_posts order None)"

subsection \<open>scrape_search_with_fallback (manager.py lines 160-216)\<close>

text \<open>
  Lines 174-179: \<^verbatim>\<open>hasattr(scraper, 'scrape_search')\<close> for the adapter registered under
  the strategy.
\<close>

definition has_scrape_search :: "(scraping_strategy \<times> scraper) list \<Rightarrow> scraping_strategy \<Rightarrow> bool" where
  "has_scrape_search registry strategy =
     (case map_of registry strategy of
        None \<Rightarrow> False
      | Some scraper \<Rightarrow> scrape_search scraper \<noteq> None)"

definition search_strategies_to_try :: "scraping_strategy list \<Rightarrow> scraping_strategy option \<Rightarrow>
    scraping_strategy list" where
  "search_strategies_to_try search_capable_strategies preferred_strategy =
     (case preferred_strategy of
        Some preferred \<Rightarrow>
          if preferred \<in> set search_capable_strategies
          then append_each (\<lambda>s. s \<noteq> preferred) search_capable_strategies [preferred]
          else search_capable_strategies
      | None \<Rightarrow> search_capable_strategies)"

definition attempt_search :: "manager \<Rightarrow> platform \<Rightarrow> string \<Rightarrow> int \<Rightarrow> scraping_strategy \<Rightarrow> drain" where
  "attempt_search self platform query max_posts strategy =
     (case strategies self platform of
        None \<Rightarrow> Raised [] (KeyError ''platform'')
      | Some registry \<Rightarrow>
         (case map_of registry strategy of
            None \<Rightarrow> Raised [] (KeyError ''strategy'')
          | Some scraper \<Rightarrow>
             (case scrape_search scraper of
                None \<Rightarrow> Raised [] (AttributeError ''scrape_search'')
              | Some search \<Rightarrow> search query max_posts)))"

fun try_search_strategies :: "manager \<Rightarrow> platform \<Rightarrow> string \<Rightarrow> int \<Rightarrow> scraping_strategy list \<Rightarrow>
    exn option \<Rightarrow> (exn + scraped_post list) \<times> manager" where
  "try_search_strategies self platform query max_posts [] last_error =
     (Inl (AllSearchStrategiesFailed platform last_error), self)"
| "try_search_strategies self platform query max_posts (strategy # rest) last_error =
     (case attempt_search self platform query max_posts strategy of
        Yielded posts \<Rightarrow>
          if posts \<noteq> [] then (Inr posts, self)
          else try_search_strategies self platform query max_posts rest last_error
      | Raised partial e \<Rightarrow>
          try_search_strategies self platform query max_posts rest (Some e))"

definition scrape_search_with_fallback :: "manager \<Rightarrow> platform \<Rightarrow> string \<Rightarrow> int \<Rightarrow>
    scraping_strategy option \<Rightarrow> (exn + scraped_post list) \<times> manager" where
  "scrape_search_with_fallback self platform query max_posts preferred_strategy =
     (case strategies self platform of
        None \<Rightarrow> (Inl (NoScrapersAvailable platform), self)
      | Some registry \<Rightarrow>
          let available_strategies = map fst registry;
              search_capable_strategies =
                append_each (has_scrape_search registry) available_strategies []
          in
          if search_capable_strategies = [] then (Inl (NoSearchCapableScrapers platform), self)
          else try_search_strategies self platform query max_posts
                 (search_strategies_to_try search_capable_strategies preferred_strategy) None)"

text \<open>
  \<^verbatim>\<open>RedditFeedScraper\<close> (reddit_feed_scraper.py): \<^verbatim>\<open>scrape_search\<close> (lines 87-98) and
  \<^verbatim>\<open>scrape_comments\<close> (lines 111-120) are defined and return at once, yielding
  nothing. What \<^verbatim>\<open>scrape_posts\<close> yields depends on the feed and is a parameter.
\<close>

definition RedditFeedScraper :: "(string \<Rightarrow> int \<Rightarrow> drain) \<Rightarrow> scraper" where
  "RedditFeedScraper rss =
     \<lparr> scrape_posts = rss,
       scrape_search = Some (\<lambda>query max_posts. Yielded []),
       scrape_comments = (\<lambda>post_url. Yielded []) \<rparr>"

subsection \<open>Keyword filter (base.py lines 198-201)\<close>

text \<open>
  \<^verbatim>\<open>str.lower\<close>. A string of this model is a list of the code points below 256 (ASCII
  and Latin-1), one \<open>char\<close> each. Among them the capital letters are A to Z and U+00C0 to
  U+00DE without the multiplication sign U+00D7, and the small letter of each stands 32
  places above it; \<^verbatim>\<open>str.lower\<close> leaves every other code point below 256 as it is.
  Code points from 256 on are outside the strings of the model.
\<close>

definition capital_letters :: string where
  "capital_letters =
     ''ABCDEFGHIJKLMNOPQRSTUVWXYZ'' @
     [CHR 0xC0, CHR 0xC1, CHR 0xC2, CHR 0xC3, CHR 0xC4, CHR 0xC5, CHR 0xC6, CHR 0xC7,
      CHR 0xC8, CHR 0xC9, CHR 0xCA, CHR 0xCB, CHR 0xCC, CHR 0xCD, CHR 0xCE, CHR 0xCF,
      CHR 0xD0, CHR 0xD1, CHR 0xD2, CHR 0xD3, CHR 0xD4, CHR 0xD5, CHR 0xD6,
      CHR 0xD8, CHR 0xD9, CHR 0xDA, CHR 0xDB, CHR 0xDC, CHR 0xDD, CHR 0xDE]"

definition small_letters :: string where
  "small_letters =
     ''abcdefghijklmnopqrstuvwxyz'' @
     [CHR 0xE0, CHR 0xE1, CHR 0xE2, CHR 0xE3, CHR 0xE4, CHR 0xE5, CHR 0xE6, CHR 0xE7,
      CHR 0xE8, CHR 0xE9, CHR 0xEA, CHR 0xEB, CHR 0xEC, CHR 0xED, CHR 0xEE, CHR 0xEF,
      CHR 0xF0, CHR 0xF1, CHR 0xF2, CHR 0xF3, CHR 0xF4, CHR 0xF5, CHR 0xF6,
      CHR 0xF8, CHR 0xF9, CHR 0xFA, CHR 0xFB, CHR 0xFC, CHR 0xFD, CHR 0xFE]"

definition lower_char :: "char \<Rightarrow> char" where
  "lower_char c =
     (case map_of (zip capital_letters small_letters) c of
        Some l \<Rightarrow> l
      | None \<Rightarrow> c)"

definition lower :: "string \<Rightarrow> string" where
  "lower text = map lower_char text"

text \<open>\<^verbatim>\<open>needle in haystack\<close> on strings: the needle starts at some position.\<close>

fun str_in :: "string \<Rightarrow> string \<Rightarrow> bool" where
  "str_in needle [] = (needle = [])"
| "str_in needle (c # rest) = (prefix needle (c # rest) \<or> str_in needle rest)"

definition matches_keywords :: "string \<Rightarrow> string list \<Rightarrow> bool" where
  "matches_keywords text kws =
     (let content_lower = lower text in list_ex (\<lambda>keyword. str_in (lower keyword) content_lower) kws)"

subsection \<open>run_scraping_job (base.py lines 118-196)\<close>

text \<open>\<^verbatim>\<open>ScrapingResult\<close>, the value \<^verbatim>\<open>run_scraping_job\<close> returns.\<close>

record scraping_result =
  result_job_id :: string
  result_posts_scraped :: int
  result_comments_scraped :: int
  result_errors :: "job_error list"
  result_started_at :: "int option"
  result_completed_at :: "int option"
  result_success :: bool

text \<open>
  The loops read the database, the two counters and \<^verbatim>\<open>result.errors\<close>, and update them.
\<close>

type_synonym progress = "database \<times> int \<times> int \<times> job_error list"

text \<open>Lines 149-156: each comment is saved; a failed save is recorded and the loop goes on.\<close>

fun save_comments :: "scraped_post list \<Rightarrow> progress \<Rightarrow> progress" where
  "save_comments [] st = st"
| "save_comments (comment # rest) (db, posts_n, comments_n, errs) =
     (case save_post db comment of
        (Inr saved, db') \<Rightarrow> save_comments rest (db', posts_n, comments_n + 1, errs)
      | (Inl e, db') \<Rightarrow>
          save_comments rest (db', posts_n, comments_n, errs @ [Comment_save_error e]))"

text \<open>
  Lines 136-163, the body of \<^verbatim>\<open>async for post in self.scrape_posts(...)\<close>, post by post.
  An exception inside the body (a failed save, or \<^verbatim>\<open>scrape_comments\<close> raising after the
  comments it had yielded were saved) is recorded by the handler of line 161.
\<close>

fun process_posts :: "scraper \<Rightarrow> scraping_job \<Rightarrow> scraped_post list \<Rightarrow> progress \<Rightarrow> progress" where
  "process_posts self job [] st = st"
| "process_posts self job (post # rest) (db, posts_n, comments_n, errs) =
     (if job_keywords job \<noteq> [] \<and> \<not> matches_keywords (content post) (job_keywords job)
      then process_posts self job rest (db, posts_n, comments_n, errs)
      else
        (case save_post db post of
           (Inl e, db') \<Rightarrow>
             process_posts self job rest
               (db', posts_n, comments_n, errs @ [Post_processing_error e])
         | (Inr saved, db') \<Rightarrow>
             if include_comments job
             then
               (case scrape_comments self (post_id post) of
                  Yielded comments \<Rightarrow>
                    process_posts self job rest
                      (save_comments comments (db', posts_n + 1, comments_n, errs))
                | Raised partial e \<Rightarrow>
                    (case save_comments partial (db', posts_n + 1, comments_n, errs) of
                       (db'', posts_n', comments_n', errs') \<Rightarrow>
                         process_posts self job rest
                           (db'', posts_n', comments_n', errs' @ [Post_processing_error e])))
             else process_posts self job rest (db', posts_n + 1, comments_n, errs)))"

text \<open>
  The whole job. The posts are handled as they are yielded, so those yielded before the
  generator raises have been handled when the handler of line 183 marks the job failed.
  \<open>t_start\<close> and \<open>t_end\<close> are the two readings of the clock.
\<close>

definition run_scraping_job :: "scraper \<Rightarrow> scraping_job \<Rightarrow> int \<Rightarrow> int \<Rightarrow> database \<Rightarrow>
    scraping_result \<times> database" where
  "run_scraping_job self job t_start t_end db =
     (let db1 = update_job_status db (job_id job) ''running'' [Started_at t_start] in
      case scrape_posts self (job_target job) (job_max_posts job) of
        Yielded posts \<Rightarrow>
          (case process_posts self job posts (db1, 0, 0, []) of
             (db2, posts_n, comments_n, errs) \<Rightarrow>
               (\<lparr> result_job_id = job_id job, result_posts_scraped = posts_n,
                   result_comments_scraped = comments_n, result_errors = errs,
                   result_started_at = Some t_start, result_completed_at = Some t_end,
                   result_success = True \<rparr>,
                update_job_status db2 (job_id job) ''completed''
                  [Posts_scraped posts_n, Comments_scraped comments_n, Completed_at t_end,
                   Success True, Errors errs]))
      | Raised partial e \<Rightarrow>
          (case process_posts self job partial (db1, 0, 0, []) of
             (db2, posts_n, comments_n, errs) \<Rightarrow>
               (\<lparr> result_job_id = job_id job, result_posts_scraped = 0,
                   result_comments_scraped = 0, result_errors = errs @ [Job_failed e],
                   result_started_at = Some t_start, result_completed_at = Some t_end,
                   result_success = False \<rparr>,
                update_job_status db2 (job_id job) ''failed''
                  [Completed_at t_end, Errors (errs @ [Job_failed e])])))"

subsection \<open>The job methods of the manager\<close>

text \<open>
  The class body defines \<^verbatim>\<open>create_job\<close>, \<^verbatim>\<open>stop_job\<close>, \<^verbatim>\<open>get_job_status\<close>,
  \<^verbatim>\<open>list_active_jobs\<close> and \<^verbatim>\<open>scrape_reddit_subreddit\<close> twice. The later definition of a
  name replaces the earlier one when the class is created, so the methods of the class
  are those of lines 396-521.

  \<^verbatim>\<open>create_job\<close> (lines 396-420). \<open>uuid4\<close> is the identifier \<^verbatim>\<open>uuid.uuid4()\<close> returns and
  \<open>now\<close> the clock; \<^verbatim>\<open>keywords or []\<close> turns a missing list into the empty one.
\<close>

definition create_job :: "manager \<Rightarrow> database \<Rightarrow> string \<Rightarrow> int \<Rightarrow> platform \<Rightarrow> string \<Rightarrow> int \<Rightarrow> bool \<Rightarrow>
    string list option \<Rightarrow> (exn + string) \<times> manager \<times> database" where
  "create_job self db uuid4 now platform target max_posts with_comments kws =
     (let job = \<lparr> job_id = uuid4, job_platform = platform, job_target = target,
                  job_max_posts = max_posts, include_comments = with_comments,
                  job_keywords = (case kws of None \<Rightarrow> [] | Some ks \<Rightarrow> ks),
                  created_at = now, status = ''pending'' \<rparr>
      in case save_job db job of
           (Inl e, db') \<Rightarrow> (Inl e, self, db')
         | (Inr saved, db') \<Rightarrow> (Inr uuid4, self, db'))"


text \<open>
  The event loop running the task of a job until the coroutine returns: the coroutine
  is \<^verbatim>\<open>run_scraping_job\<close>, which has the database and no reference to the manager; the
  task object it belongs to is then done.
\<close>

definition task_runs_to_completion :: "manager \<Rightarrow> database \<Rightarrow> string \<Rightarrow> int \<Rightarrow> int \<Rightarrow>
    manager \<times> database" where
  "task_runs_to_completion self db jid t_start t_end =
     (case active_jobs self jid of
        None \<Rightarrow> (self, db)
      | Some t \<Rightarrow>
          if task_done t then (self, db)
          else (self\<lparr> active_jobs := (active_jobs self)(jid \<mapsto> t\<lparr> task_done := True \<rparr>) \<rparr>,
                snd (run_scraping_job (task_scraper t) (task_job t) t_start t_end db)))"

text \<open>
  \<^verbatim>\<open>stop_job\<close> (lines 456-476). \<^verbatim>\<open>task.cancel()\<close> does nothing to a task that is done,
  and \<^verbatim>\<open>await task\<close> returns; in a task that is not done \<^verbatim>\<open>CancelledError\<close> is raised
  inside \<^verbatim>\<open>run_scraping_job\<close>, whose handlers (\<^verbatim>\<open>except Exception\<close>) do not catch it, so
  the coroutine ends without another write. Either way the entry is deleted and the row
  updated.
\<close>

definition stop_job :: "manager \<Rightarrow> database \<Rightarrow> string \<Rightarrow> int \<Rightarrow> (exn + bool) \<times> manager \<times> database" where
  "stop_job self db jid now =
     (case active_jobs self jid of
        None \<Rightarrow> (Inr False, self, db)
      | Some t \<Rightarrow>
          (Inr True,
           self\<lparr> active_jobs := (active_jobs self)(jid := None) \<rparr>,
           update_job_status db jid ''cancelled'' [Completed_at now]))"

text \<open>\<^verbatim>\<open>get_job_status\<close> (lines 478-499): the dict it returns, with its twelve keys.\<close>

record status_info =
  info_job_id :: string
  info_platform :: platform
  info_target :: string
  info_status :: string
  is_running :: bool
  info_created_at :: int
  info_started_at :: "int option"
  info_completed_at :: "int option"
  info_posts_scraped :: int
  info_comments_scraped :: int
  info_success :: bool
  info_errors :: "job_error list option"

definition get_job_status :: "manager \<Rightarrow> database \<Rightarrow> string \<Rightarrow> status_info option" where
  "get_job_status self db jid =
     (case db_get_job_status db jid of
        None \<Rightarrow> None
      | Some job_data \<Rightarrow>
          Some \<lparr> info_job_id = job_id job_data, info_platform = job_platform job_data,
                 info_target = job_target job_data, info_status = status job_data,
                 is_running = (jid \<in> dom (active_jobs self)),
                 info_created_at = created_at job_data,
                 info_started_at = started_at job_data,
                 info_completed_at = completed_at job_data,
                 info_posts_scraped = posts_scraped job_data,
                 info_comments_scraped = comments_scraped job_data,
                 info_success = success job_data, info_errors = errors job_data \<rparr>)"

text \<open>
  \<^verbatim>\<open>_run_job_with_fallback\<close> (lines 279-324). Lines 294-299 save every post returned
  by \<^verbatim>\<open>scrape_with_fallback\<close>; a failed save is logged and not counted. The
  \<^verbatim>\<open>finally\<close> clause deletes the job's entry of \<^verbatim>\<open>active_jobs\<close>, if there is one.
\<close>

fun save_posts :: "scraped_post list \<Rightarrow> database \<Rightarrow> int \<Rightarrow> database \<times> int" where
  "save_posts [] db posts_saved = (db, posts_saved)"
| "save_posts (post # rest) db posts_saved =
     (case save_post db post of
        (Inr saved, db') \<Rightarrow> save_posts rest db' (posts_saved + 1)
      | (Inl e, db') \<Rightarrow> save_posts rest db' posts_saved)"

definition run_job_with_fallback :: "manager \<Rightarrow> database \<Rightarrow> scraping_job \<Rightarrow> scraping_strategy option \<Rightarrow>
    int \<Rightarrow> int \<Rightarrow> manager \<times> database" where
  "run_job_with_fallback self db job preferred_strategy t_start t_end =
     (let db1 = update_job_status db (job_id job) ''running'' [Started_at t_start] in
      case scrape_with_fallback self (job_platform job) (job_target job) (job_max_posts job)
             preferred_strategy of
        (Inr posts, self1) \<Rightarrow>
          (case save_posts posts db1 0 of
             (db2, posts_saved) \<Rightarrow>
               (self1\<lparr> active_jobs := (active_jobs self1)(job_id job := None) \<rparr>,
                update_job_status db2 (job_id job) ''completed''
                  [Completed_at t_end, Posts_scraped posts_saved, Success True]))
      | (Inl e, self1) \<Rightarrow>
          (self1\<lparr> active_jobs := (active_jobs self1)(job_id job := None) \<rparr>,
           update_job_status db1 (job_id job) ''failed''
             [Completed_at t_end, Success False, Errors [Str e]]))"

subsection \<open>The managers the code builds\<close>



section \<open>The request wrapper (base.py lines 83-106)\<close>

text \<open>
  What \<^verbatim>\<open>self.session.get\<close> gives for one request: the response, of which the code reads
  the status, the content type and the body (as JSON or as text), or an exception.
\<close>

record response =
  resp_status :: int
  resp_content_type :: string
  resp_json :: "exn + string"
  resp_text :: string

datatype payload = Json_body string | Text_body string

text \<open>
  The body of \<^verbatim>\<open>_make_request\<close> (lines 90-106): \<^verbatim>\<open>raise_for_status\<close> raises
  \<^verbatim>\<open>ClientResponseError\<close> for a status of 400 or more; both handlers log and re-raise.
\<close>

definition make_request_body :: "exn + response \<Rightarrow> exn + payload" where
  "make_request_body got =
     (case got of
        Inl e \<Rightarrow> Inl e
      | Inr r \<Rightarrow>
          if 400 \<le> resp_status r then Inl (ClientResponseError (resp_status r))
          else if str_in ''application/json'' (resp_content_type r)
          then (case resp_json r of Inl e \<Rightarrow> Inl e | Inr parsed \<Rightarrow> Inr (Json_body parsed))
          else Inr (Text_body (resp_text r)))"

text \<open>
  \<^verbatim>\<open>retry_if_exception_type((aiohttp.ClientError, asyncio.TimeoutError))\<close>: the
  exceptions that are instances of one of the two classes.
\<close>

fun retry_if_exception_type :: "exn \<Rightarrow> bool" where
  "retry_if_exception_type (ClientResponseError code) = True"
| "retry_if_exception_type (ClientConnectionError msg) = True"
| "retry_if_exception_type TimeoutError = True"
| "retry_if_exception_type e = False"

definition stop_after_attempt :: nat where
  "stop_after_attempt = 3"

text \<open>
  \<^verbatim>\<open>wait_exponential(multiplier=1, min=4, max=10)\<close>: the seconds to wait after the failed
  attempt of the given number, the multiplier times 2 to the power of the attempts made
  before it, kept between min and max. (Releases of tenacity that take 2 to the power of
  the attempt number itself give the same waits after the first and the second attempt,
  the only ones a limit of three attempts allows.)
\<close>

definition wait_exponential :: "nat \<Rightarrow> nat" where
  "wait_exponential attempt_number = max 4 (min (1 * 2 ^ (attempt_number - 1)) 10)"

text \<open>
  The decorator \<^verbatim>\<open>@retry(stop=stop_after_attempt(3), wait=wait_exponential(...), retry=...)\<close>:
  the call is repeated, after the wait, while it raises an exception the \<^verbatim>\<open>retry\<close>
  predicate accepts and fewer than three attempts were made; an exception the predicate
  rejects propagates as it is, and after the third attempt \<^verbatim>\<open>RetryError\<close> is raised
  (\<^verbatim>\<open>reraise\<close> is left at its default). \<open>operation k\<close> is what the \<open>k\<close>-th call does; the
  result comes with the number of the last attempt and the waits slept, in order.
\<close>

function retry :: "(nat \<Rightarrow> exn + 'a) \<Rightarrow> nat \<Rightarrow> nat list \<Rightarrow> (exn + 'a) \<times> nat \<times> nat list" where
  "retry operation attempt_number slept =
     (case operation attempt_number of
        Inr v \<Rightarrow> (Inr v, attempt_number, slept)
      | Inl e \<Rightarrow>
          if \<not> retry_if_exception_type e then (Inl e, attempt_number, slept)
          else if stop_after_attempt \<le> attempt_number
          then (Inl (RetryError e), attempt_number, slept)
          else retry operation (attempt_number + 1)
                 (slept @ [wait_exponential attempt_number]))"
  by pat_completeness auto
termination
  by (relation "measure (\<lambda>(operation, attempt_number, slept).
        stop_after_attempt - attempt_number)") auto

text \<open>\<open>network k\<close> is what the session gives at the \<open>k\<close>-th request.\<close>

definition make_request :: "(nat \<Rightarrow> exn + response) \<Rightarrow> (exn + payload) \<times> nat \<times> nat list" where
  "make_request network = retry (\<lambda>k. make_request_body (network k)) 1 []"

section \<open>Stubs and sample data for the concrete cases\<close>

text \<open>An adapter stub: \<^verbatim>\<open>scrape_posts\<close> gives the same outcome whatever it is asked.\<close>

definition stub_scraper :: "drain \<Rightarrow> scraper" where
  "stub_scraper outcome =
     \<lparr> scrape_posts = (\<lambda>target max_posts. outcome),
       scrape_search = None,
       scrape_comments = (\<lambda>pid. Yielded []) \<rparr>"

definition sample_post :: "string \<Rightarrow> string \<Rightarrow> scraped_post" where
  "sample_post pid text =
     \<lparr> post_id = pid, post_platform = REDDIT, post_kind = POST, author = ''u1'',
       content = text, url = ''https://www.reddit.com/'' \<rparr>"

definition manager_with :: "(scraping_strategy \<times> scraper) list \<Rightarrow> manager" where
  "manager_with registry =
     \<lparr> strategies = [REDDIT \<mapsto> registry], active_jobs = Map.empty, scrapers = None \<rparr>"

definition response_with_status :: "int \<Rightarrow> response" where
  "response_with_status code =
     \<lparr> resp_status = code, resp_content_type = ''text/html'',
       resp_json = Inl (JSONDecodeError ''body''), resp_text = ''body'' \<rparr>"

text \<open>
  A manager whose \<^verbatim>\<open>scrapers\<close> attribute holds an adapter for Reddit, as \<^verbatim>\<open>start_job\<close>
  expects it; the adapter's feed is empty.
\<close>

definition manager_with_scrapers :: manager where
  "manager_with_scrapers =
     init_manager\<lparr> scrapers := Some [REDDIT \<mapsto> stub_scraper (Yielded [])] \<rparr>"

text \<open>A job is created and started; the clock reads 0 and 1.\<close>

definition job_created :: "(exn + string) \<times> manager \<times> database" where
  "job_created =
     create_job manager_with_scrapers empty_db ''j1'' 0 REDDIT ''python'' 100 False None"


text \<open>A job with one keyword, saved, and two fetched posts of which one has the keyword.\<close>

definition rust_job :: scraping_job where
  "rust_job =
     \<lparr> job_id = ''j2'', job_platform = REDDIT, job_target = ''programming'',
       job_max_posts = 100, include_comments = False, job_keywords = [''rust''],
       created_at = 0, status = ''pending'' \<rparr>"

definition rust_db :: database where
  "rust_db = snd (save_job empty_db rust_job)"

definition fetched_posts :: "scraped_post list" where
  "fetched_posts = [sample_post ''p1'' ''I love Python'', sample_post ''p2'' ''Rust is great'']"

text \<open>
  Three networks: one that times out twice and then answers 200, one that answers 404
  every time, and a scraper whose session was never opened (\<^verbatim>\<open>self.session\<close> is
  \<^verbatim>\<open>None\<close>, so \<^verbatim>\<open>self.session.get\<close> raises \<^verbatim>\<open>AttributeError\<close>).
\<close>

definition flaky_network :: "nat \<Rightarrow> exn + response" where
  "flaky_network k = (if k < 3 then Inl TimeoutError else Inr (response_with_status 200))"

definition not_found_network :: "nat \<Rightarrow> exn + response" where
  "not_found_network k = Inr (response_with_status 404)"

definition no_session_network :: "nat \<Rightarrow> exn + response" where
  "no_session_network k = Inl (AttributeError ''get'')"

text \<open>
  Two more networks: one that times out every time, and one that times out twice and
  then answers 200 with a body announced as JSON that does not parse.
\<close>

definition timeout_network :: "nat \<Rightarrow> exn + response" where
  "timeout_network k = Inl TimeoutError"

definition bad_json_network :: "nat \<Rightarrow> exn + response" where
  "bad_json_network k =
     (if k < 3 then Inl TimeoutError
      else Inr \<lparr> resp_status = 200, resp_content_type = ''application/json'',
                 resp_json = Inl (JSONDecodeError ''body''), resp_text = ''body'' \<rparr>)"

section \<open>Properties\<close>

subsection \<open>Try-order\<close>

lemma append_each_filter: "append_each cond order acc = acc @ filter cond order"
  by (induction order arbitrary: acc) auto

lemma strategies_to_try_available:
  "set (strategies_to_try available preferred) \<subseteq> set available"
  by (auto simp add: strategies_to_try_def default_order_def append_each_filter
      split: option.splits if_splits)

text \<open>
  C2. The try-order is the preferred strategy, when it is available, followed by the
  other available strategies in the order WEB, FEED, API; without an available
  preferred strategy it is the available ones in the order WEB, FEED, API. It is the
  order in which \<open>scrape_with_fallback\<close> runs the loop over the adapters.
\<close>

theorem try_order:
  "strategies_to_try available preferred =
     (case preferred of
        Some p \<Rightarrow>
          if p \<in> set available
          then p # filter (\<lambda>s. s \<noteq> p \<and> s \<in> set available) [WEB, FEED, API]
          else filter (\<lambda>s. s \<in> set available) [WEB, FEED, API]
      | None \<Rightarrow> filter (\<lambda>s. s \<in> set available) [WEB, FEED, API])
   \<and> (strategies self platform = Some registry \<and> map fst registry = available \<and>
        strategies_to_try available preferred \<noteq> [] \<longrightarrow>
        scrape_with_fallback self platform target n preferred =
          try_strategies self platform target n (strategies_to_try available preferred) None)"
proof (intro conjI impI)
  show "strategies_to_try available preferred =
     (case preferred of
        Some p \<Rightarrow>
          if p \<in> set available
          then p # filter (\<lambda>s. s \<noteq> p \<and> s \<in> set available) [WEB, FEED, API]
          else filter (\<lambda>s. s \<in> set available) [WEB, FEED, API]
      | None \<Rightarrow> filter (\<lambda>s. s \<in> set available) [WEB, FEED, API])"
    by (simp add: strategies_to_try_def default_order_def append_each_filter
        split: option.splits)
next
  assume a: "strategies self platform = Some registry \<and> map fst registry = available \<and>
    strategies_to_try available preferred \<noteq> []"
  then have "available \<noteq> []"
    using strategies_to_try_available [of available preferred] by auto
  with a show "scrape_with_fallback self platform target n preferred =
      try_strategies self platform target n (strategies_to_try available preferred) None"
    by (simp add: scrape_with_fallback_def Let_def)
qed

theorem try_order_witness:
  "strategies_to_try [WEB, FEED] (Some API) = [WEB, FEED]
   \<and> strategies_to_try [API, WEB, FEED] (Some FEED) = [FEED, WEB, API]
   \<and> strategies_to_try [API, WEB, FEED] None = [WEB, FEED, API]
   \<and> scrape_with_fallback
        (manager_with [(WEB, stub_scraper (Yielded [])), (FEED, stub_scraper (Yielded []))])
        REDDIT ''python'' 5 (Some API) =
      try_strategies
        (manager_with [(WEB, stub_scraper (Yielded [])), (FEED, stub_scraper (Yielded []))])
        REDDIT ''python'' 5 [WEB, FEED] None"
proof -
  have 1: "strategies_to_try [WEB, FEED] (Some API) = [WEB, FEED]"
    using try_order [of "[WEB, FEED]" "Some API"] by simp
  have 2: "strategies_to_try [API, WEB, FEED] (Some FEED) = [FEED, WEB, API]"
    using try_order [of "[API, WEB, FEED]" "Some FEED"] by simp
  have 3: "strategies_to_try [API, WEB, FEED] None = [WEB, FEED, API]"
    using try_order [of "[API, WEB, FEED]" None] by simp
  let ?m = "manager_with [(WEB, stub_scraper (Yielded [])), (FEED, stub_scraper (Yielded []))]"
  have "strategies ?m REDDIT =
          Some [(WEB, stub_scraper (Yielded [])), (FEED, stub_scraper (Yielded []))]
        \<and> map fst [(WEB, stub_scraper (Yielded [])), (FEED, stub_scraper (Yielded []))] =
          [WEB, FEED]
        \<and> strategies_to_try [WEB, FEED] (Some API) \<noteq> []"
    using 1 by (simp add: manager_with_def)
  with try_order [of "[WEB, FEED]" "Some API" ?m REDDIT
      "[(WEB, stub_scraper (Yielded [])), (FEED, stub_scraper (Yielded []))]" "''python''" 5]
  have "scrape_with_fallback ?m REDDIT ''python'' 5 (Some API) =
      try_strategies ?m REDDIT ''python'' 5 (strategies_to_try [WEB, FEED] (Some API)) None"
    by blast
  with 1 2 3 show ?thesis by simp
qed

subsection \<open>The fallback loop\<close>

lemma try_strategies_self:
  "snd (try_strategies self platform target n order last_error) = self"
  by (induction order arbitrary: last_error) (auto split: drain.splits)

lemma try_strategies_not_empty:
  "fst (try_strategies self platform target n order last_error) \<noteq> Inr []"
  by (induction order arbitrary: last_error) (auto split: drain.splits)

lemma try_strategies_all_fail:
  "list_all (\<lambda>s. no_posts (attempt self platform target n s)) order \<Longrightarrow>
   fst (try_strategies self platform target n order last_error) =
     Inl (AllStrategiesFailed platform
       (case List.map_filter (\<lambda>s. raised_error (attempt self platform target n s)) order of
          [] \<Rightarrow> last_error
        | e # es \<Rightarrow> Some (last (e # es))))"
proof (induction order arbitrary: last_error)
  case Nil
  then show ?case by simp
next
  case (Cons s order)
  show ?case
  proof (cases "attempt self platform target n s")
    case (Yielded posts)
    with Cons show ?thesis by simp
  next
    case (Raised partial e)
    with Cons show ?thesis
      by (auto split: list.splits)
  qed
qed

lemma try_strategies_first_success:
  "list_all (\<lambda>s. no_posts (attempt self platform target n s)) before \<Longrightarrow>
   attempt self platform target n s = Yielded posts \<Longrightarrow> posts \<noteq> [] \<Longrightarrow>
   fst (try_strategies self platform target n (before @ s # after) last_error) = Inr posts"
proof (induction before arbitrary: last_error)
  case Nil
  then show ?case by simp
next
  case (Cons b before)
  then show ?case by (cases "attempt self platform target n b") auto
qed

lemma attempt_registered:
  assumes "strategies self platform = Some registry" and "s \<in> fst ` set registry"
  shows "\<exists>a. map_of registry s = Some a \<and>
    attempt self platform target n s = scrape_posts a target n"
proof -
  from assms(2) obtain a where "map_of registry s = Some a"
    by (metis domD dom_map_of_conv_image_fst)
  with assms(1) show ?thesis by (simp add: attempt_def)
qed

text \<open>
  C1. \<open>scrape_with_fallback\<close> never returns an empty list. A platform without adapters
  (no entry, or an empty one) gives a \<^verbatim>\<open>ValueError\<close>, and so does a try-order that comes
  out empty. Otherwise each strategy of the try-order is the \<^verbatim>\<open>scrape_posts\<close> of its
  registered adapter, drained; the result is the posts of the first strategy that
  yields at least one post, the strategies before it having yielded nothing or raised;
  and when every strategy of the try-order yields nothing or raises, the call raises
  \<open>AllStrategiesFailed\<close> with the exception of the last strategy that raised.
\<close>

theorem scrape_with_fallback_outcome:
  "fst (scrape_with_fallback self platform target n preferred) \<noteq> Inr []
   \<and> (strategies self platform = None \<or> strategies self platform = Some [] \<longrightarrow>
        (\<exists>e. fst (scrape_with_fallback self platform target n preferred) = Inl e \<and>
             is_ValueError e))
   \<and> (strategies self platform = Some registry \<longrightarrow>
        (strategies_to_try (map fst registry) preferred = [] \<longrightarrow>
           (\<exists>e. fst (scrape_with_fallback self platform target n preferred) = Inl e \<and>
                is_ValueError e))
        \<and> (\<forall>s \<in> set (strategies_to_try (map fst registry) preferred).
             \<exists>a. map_of registry s = Some a \<and>
                 attempt self platform target n s = scrape_posts a target n)
        \<and> (\<forall>before s after posts.
             strategies_to_try (map fst registry) preferred = before @ s # after \<and>
             list_all (\<lambda>s'. no_posts (attempt self platform target n s')) before \<and>
             attempt self platform target n s = Yielded posts \<and> posts \<noteq> [] \<longrightarrow>
             fst (scrape_with_fallback self platform target n preferred) = Inr posts)
        \<and> (strategies_to_try (map fst registry) preferred \<noteq> [] \<and>
            list_all (\<lambda>s. no_posts (attempt self platform target n s))
              (strategies_to_try (map fst registry) preferred) \<longrightarrow>
            fst (scrape_with_fallback self platform target n preferred) =
              Inl (AllStrategiesFailed platform
                (case List.map_filter (\<lambda>s. raised_error (attempt self platform target n s))
                        (strategies_to_try (map fst registry) preferred) of
                   [] \<Rightarrow> None
                 | e # es \<Rightarrow> Some (last (e # es))))))"
proof (intro conjI impI)
  show "fst (scrape_with_fallback self platform target n preferred) \<noteq> Inr []"
    by (simp add: scrape_with_fallback_def Let_def try_strategies_not_empty
        split: option.splits)
next
  assume "strategies self platform = None \<or> strategies self platform = Some []"
  then show "\<exists>e. fst (scrape_with_fallback self platform target n preferred) = Inl e \<and>
      is_ValueError e"
    by (auto simp add: scrape_with_fallback_def)
next
  assume "strategies self platform = Some registry"
    and "strategies_to_try (map fst registry) preferred = []"
  then show "\<exists>e. fst (scrape_with_fallback self platform target n preferred) = Inl e \<and>
      is_ValueError e"
    by (simp add: scrape_with_fallback_def Let_def)
next
  assume reg: "strategies self platform = Some registry"
  show "\<forall>s \<in> set (strategies_to_try (map fst registry) preferred).
      \<exists>a. map_of registry s = Some a \<and>
          attempt self platform target n s = scrape_posts a target n"
  proof
    fix s
    assume "s \<in> set (strategies_to_try (map fst registry) preferred)"
    then have "s \<in> fst ` set registry"
      using strategies_to_try_available [of "map fst registry" preferred] by auto
    with reg show "\<exists>a. map_of registry s = Some a \<and>
        attempt self platform target n s = scrape_posts a target n"
      by (rule attempt_registered)
  qed
next
  assume reg: "strategies self platform = Some registry"
  show "\<forall>before s after posts.
      strategies_to_try (map fst registry) preferred = before @ s # after \<and>
      list_all (\<lambda>s'. no_posts (attempt self platform target n s')) before \<and>
      attempt self platform target n s = Yielded posts \<and> posts \<noteq> [] \<longrightarrow>
      fst (scrape_with_fallback self platform target n preferred) = Inr posts"
  proof (intro allI impI)
    fix before s after posts
    assume a: "strategies_to_try (map fst registry) preferred = before @ s # after \<and>
      list_all (\<lambda>s'. no_posts (attempt self platform target n s')) before \<and>
      attempt self platform target n s = Yielded posts \<and> posts \<noteq> []"
    then have "map fst registry \<noteq> []"
      using strategies_to_try_available [of "map fst registry" preferred] by auto
    with reg a have "scrape_with_fallback self platform target n preferred =
        try_strategies self platform target n (before @ s # after) None"
      by (simp add: scrape_with_fallback_def Let_def)
    with a show "fst (scrape_with_fallback self platform target n preferred) = Inr posts"
      by (simp add: try_strategies_first_success)
  qed
next
  assume reg: "strategies self platform = Some registry"
    and a: "strategies_to_try (map fst registry) preferred \<noteq> [] \<and>
      list_all (\<lambda>s. no_posts (attempt self platform target n s))
        (strategies_to_try (map fst registry) preferred)"
  then have "map fst registry \<noteq> []"
    using strategies_to_try_available [of "map fst registry" preferred] by auto
  with reg a have "scrape_with_fallback self platform target n preferred =
      try_strategies self platform target n
        (strategies_to_try (map fst registry) preferred) None"
    by (simp add: scrape_with_fallback_def Let_def)
  with a show "fst (scrape_with_fallback self platform target n preferred) =
      Inl (AllStrategiesFailed platform
        (case List.map_filter (\<lambda>s. raised_error (attempt self platform target n s))
                (strategies_to_try (map fst registry) preferred) of
           [] \<Rightarrow> None
         | e # es \<Rightarrow> Some (last (e # es))))"
    by (simp add: try_strategies_all_fail)
qed

theorem scrape_with_fallback_outcome_witness:
  "fst (scrape_with_fallback init_manager REDDIT ''python'' 100 None) =
     Inl (NoScrapersAvailable REDDIT)
   \<and> fst (scrape_with_fallback
        (manager_with
           [(WEB, stub_scraper (Yielded [])),
            (FEED, stub_scraper (Yielded [sample_post ''p1'' ''a'', sample_post ''p2'' ''b'',
               sample_post ''p3'' ''c'']))])
        REDDIT ''python'' 100 None) =
     Inr [sample_post ''p1'' ''a'', sample_post ''p2'' ''b'', sample_post ''p3'' ''c'']
   \<and> fst (scrape_with_fallback
        (manager_with
           [(API, stub_scraper (Yielded [])),
            (WEB, stub_scraper (Raised [sample_post ''p1'' ''a''] (ScraperError ''blocked''))),
            (FEED, stub_scraper (Raised [] TimeoutError))])
        REDDIT ''python'' 100 (Some API)) =
     Inl (AllStrategiesFailed REDDIT (Some TimeoutError))"
proof (intro conjI)
  have "strategies init_manager REDDIT = None \<or> strategies init_manager REDDIT = Some []"
    by (simp add: init_manager_def)
  with scrape_with_fallback_outcome [of init_manager REDDIT "''python''" 100 None]
  obtain e where "fst (scrape_with_fallback init_manager REDDIT ''python'' 100 None) = Inl e"
    by blast
  then show "fst (scrape_with_fallback init_manager REDDIT ''python'' 100 None) =
      Inl (NoScrapersAvailable REDDIT)"
    by (simp add: scrape_with_fallback_def init_manager_def)
next
  let ?posts = "[sample_post ''p1'' ''a'', sample_post ''p2'' ''b'', sample_post ''p3'' ''c'']"
  let ?reg = "[(WEB, stub_scraper (Yielded [])), (FEED, stub_scraper (Yielded ?posts))]"
  have reg: "strategies (manager_with ?reg) REDDIT = Some ?reg"
    by (simp add: manager_with_def)
  have "strategies_to_try (map fst ?reg) None = [WEB] @ FEED # [] \<and>
      list_all (\<lambda>s'. no_posts (attempt (manager_with ?reg) REDDIT ''python'' 100 s')) [WEB] \<and>
      attempt (manager_with ?reg) REDDIT ''python'' 100 FEED = Yielded ?posts \<and> ?posts \<noteq> []"
    by (simp add: strategies_to_try_def default_order_def attempt_def manager_with_def
        stub_scraper_def)
  with reg scrape_with_fallback_outcome
    [of "manager_with ?reg" REDDIT "''python''" 100 None ?reg]
  show "fst (scrape_with_fallback (manager_with ?reg) REDDIT ''python'' 100 None) = Inr ?posts"
    by blast
next
  let ?reg = "[(API, stub_scraper (Yielded [])),
      (WEB, stub_scraper (Raised [sample_post ''p1'' ''a''] (ScraperError ''blocked''))),
      (FEED, stub_scraper (Raised [] TimeoutError))]"
  have reg: "strategies (manager_with ?reg) REDDIT = Some ?reg"
    by (simp add: manager_with_def)
  have order: "strategies_to_try (map fst ?reg) (Some API) = [API, WEB, FEED]"
    by (simp add: strategies_to_try_def default_order_def)
  have fail: "list_all (\<lambda>s. no_posts (attempt (manager_with ?reg) REDDIT ''python'' 100 s))
      (strategies_to_try (map fst ?reg) (Some API))"
    by (simp add: strategies_to_try_def default_order_def attempt_def manager_with_def
        stub_scraper_def)
  have errs: "List.map_filter
      (\<lambda>s. raised_error (attempt (manager_with ?reg) REDDIT ''python'' 100 s))
      (strategies_to_try (map fst ?reg) (Some API)) = [ScraperError ''blocked'', TimeoutError]"
    by (simp add: strategies_to_try_def default_order_def attempt_def manager_with_def
        stub_scraper_def)
  from reg order fail scrape_with_fallback_outcome
    [of "manager_with ?reg" REDDIT "''python''" 100 "Some API" ?reg]
  have "fst (scrape_with_fallback (manager_with ?reg) REDDIT ''python'' 100 (Some API)) =
      Inl (AllStrategiesFailed REDDIT
        (case List.map_filter
                (\<lambda>s. raised_error (attempt (manager_with ?reg) REDDIT ''python'' 100 s))
                (strategies_to_try (map fst ?reg) (Some API)) of
           [] \<Rightarrow> None
         | e # es \<Rightarrow> Some (last (e # es))))"
    by simp
  then show "fst (scrape_with_fallback (manager_with ?reg) REDDIT ''python'' 100 (Some API)) =
      Inl (AllStrategiesFailed REDDIT (Some TimeoutError))"
    unfolding errs by simp
qed

text \<open>
  C10. A call of \<open>scrape_with_fallback\<close>, whether it returns posts or raises, leaves the
  manager as it was: the strategy registry and the table of active jobs are those of
  before the call.
\<close>

theorem scrape_with_fallback_frame:
  "snd (scrape_with_fallback self platform target n preferred) = self
   \<and> strategies (snd (scrape_with_fallback self platform target n preferred)) = strategies self
   \<and> active_jobs (snd (scrape_with_fallback self platform target n preferred)) =
       active_jobs self"
proof -
  have "snd (scrape_with_fallback self platform target n preferred) = self"
    by (simp add: scrape_with_fallback_def Let_def try_strategies_self split: option.splits)
  then show ?thesis by simp
qed

subsection \<open>Search\<close>


text \<open>
  The search tries only strategies whose adapter has a \<^verbatim>\<open>scrape_search\<close>, and raises
  the \<^verbatim>\<open>ValueError\<close> of line 182 when no adapter has one.
\<close>

lemma search_strategies_to_try_capable:
  "set (search_strategies_to_try
     (append_each (has_scrape_search registry) (map fst registry) []) preferred)
   \<subseteq> {s. has_scrape_search registry s}"
  by (auto simp add: search_strategies_to_try_def append_each_filter split: option.splits)

lemma search_without_capable_adapter:
  "strategies self platform = Some registry \<Longrightarrow>
   \<forall>s \<in> fst ` set registry. \<not> has_scrape_search registry s \<Longrightarrow>
   fst (scrape_search_with_fallback self platform query n preferred) =
     Inl (NoSearchCapableScrapers platform)"
proof -
  assume reg: "strategies self platform = Some registry"
    and none: "\<forall>s \<in> fst ` set registry. \<not> has_scrape_search registry s"
  then have "filter (has_scrape_search registry) (map fst registry) = []"
    by (auto simp add: filter_empty_conv)
  with reg show ?thesis
    by (simp add: scrape_search_with_fallback_def Let_def append_each_filter)
qed

text \<open>
  C9. With the Feed adapter as the only adapter of the platform, the search does not
  fail for want of a search-capable adapter: the adapter has a \<^verbatim>\<open>scrape_search\<close>, so it
  passes the filter, its \<^verbatim>\<open>scrape_search\<close> is drained and yields nothing, and the call
  raises the exception of the exhausted loop.
\<close>

theorem feed_adapter_is_searched:
  "has_scrape_search [(FEED, RedditFeedScraper rss)] FEED
   \<and> attempt_search (manager_with [(FEED, RedditFeedScraper rss)]) REDDIT query n FEED =
       Yielded []
   \<and> fst (scrape_search_with_fallback (manager_with [(FEED, RedditFeedScraper rss)])
            REDDIT query n preferred) =
       Inl (AllSearchStrategiesFailed REDDIT None)"
proof (intro conjI)
  show cap: "has_scrape_search [(FEED, RedditFeedScraper rss)] FEED"
    by (simp add: has_scrape_search_def RedditFeedScraper_def)
  show att: "attempt_search (manager_with [(FEED, RedditFeedScraper rss)]) REDDIT query n FEED =
      Yielded []"
    by (simp add: attempt_search_def manager_with_def RedditFeedScraper_def)
  have order: "search_strategies_to_try [FEED] preferred = [FEED]"
    by (simp add: search_strategies_to_try_def split: option.splits)
  have "scrape_search_with_fallback (manager_with [(FEED, RedditFeedScraper rss)])
      REDDIT query n preferred =
      try_search_strategies (manager_with [(FEED, RedditFeedScraper rss)]) REDDIT query n
        (search_strategies_to_try [FEED] preferred) None"
    by (simp add: scrape_search_with_fallback_def Let_def manager_with_def cap)
  then show "fst (scrape_search_with_fallback (manager_with [(FEED, RedditFeedScraper rss)])
      REDDIT query n preferred) = Inl (AllSearchStrategiesFailed REDDIT None)"
    by (simp add: order att)
qed

subsection \<open>Jobs\<close>

lemma str_in_sublist: "str_in needle haystack \<longleftrightarrow> sublist needle haystack"
  by (induction haystack) (simp_all add: sublist_Cons_right)

lemma matches_keywords_iff:
  "matches_keywords text kws \<longleftrightarrow> (\<exists>k \<in> set kws. sublist (lower k) (lower text))"
  by (simp add: matches_keywords_def list_ex_iff str_in_sublist)

text \<open>The capital E with acute accent, U+00C9, matches the small one, U+00E9.\<close>

lemma matches_keywords_latin1:
  "matches_keywords (''CAF'' @ [CHR 0xC9]) [''caf'' @ [CHR 0xE9]]"
  by (simp add: matches_keywords_def lower_def lower_char_def capital_letters_def
      small_letters_def)

text \<open>
  In \<open>run_scraping_job\<close> a post that matches no keyword of a job with keywords is
  skipped: it is not saved, not counted, and adds no error.
\<close>

lemma process_posts_skips:
  "process_posts self job posts st =
   process_posts self job
     (filter (\<lambda>p. job_keywords job = [] \<or> matches_keywords (content p) (job_keywords job))
        posts) st"
proof (induction self job posts st rule: process_posts.induct)
  case (1 self job st)
  then show ?case by simp
next
  case (2 self job post rest db posts_n comments_n errs)
  show ?case
  proof (cases "job_keywords job \<noteq> [] \<and> \<not> matches_keywords (content post) (job_keywords job)")
    case True
    with 2(1) show ?thesis by simp
  next
    case False
    with 2(2-5) show ?thesis
      by (auto split: prod.splits sum.splits drain.splits)
  qed
qed

text \<open>
  The posts that pass the filter are saved and counted one by one when their
  identifiers are new to the table and differ from one another (here for a job without
  comments).
\<close>

lemma process_posts_saves:
  "\<not> include_comments job \<Longrightarrow>
   \<forall>p \<in> set posts. job_keywords job = [] \<or> matches_keywords (content p) (job_keywords job) \<Longrightarrow>
   distinct (map post_id posts) \<Longrightarrow>
   post_id ` set posts \<inter> dom (scraped_posts db) = {} \<Longrightarrow>
   process_posts self job posts (db, posts_n, comments_n, errs) =
     (db\<lparr> scraped_posts := scraped_posts db ++ map_of (map (\<lambda>p. (post_id p, p)) posts) \<rparr>,
      posts_n + int (length posts), comments_n, errs)"
proof (induction posts arbitrary: db posts_n)
  case Nil
  then show ?case by simp
next
  case (Cons p posts)
  let ?db = "db\<lparr> scraped_posts := (scraped_posts db)(post_id p \<mapsto> p) \<rparr>"
  from Cons.prems have fresh: "post_id p \<notin> dom (scraped_posts db)"
    by auto
  then have save: "save_post db p = (Inr (post_id p), ?db)"
    by (simp add: save_post_def)
  from Cons.prems have p1: "\<not> include_comments job"
    and p2: "\<forall>p \<in> set posts.
      job_keywords job = [] \<or> matches_keywords (content p) (job_keywords job)"
    and p3: "distinct (map post_id posts)"
    and p4: "post_id ` set posts \<inter> dom (scraped_posts ?db) = {}"
    and keep: "job_keywords job = [] \<or> matches_keywords (content p) (job_keywords job)"
    by auto
  have ih: "process_posts self job posts (?db, posts_n + 1, comments_n, errs) =
      (?db\<lparr> scraped_posts :=
          scraped_posts ?db ++ map_of (map (\<lambda>p. (post_id p, p)) posts) \<rparr>,
       posts_n + 1 + int (length posts), comments_n, errs)"
    by (rule Cons.IH [OF p1 p2 p3 p4])
  from Cons.prems have notin: "post_id p \<notin> post_id ` set posts"
    by auto
  then have "map_of (map (\<lambda>p. (post_id p, p)) posts) (post_id p) = None"
    by (simp add: map_of_eq_None_iff image_image)
  then have dbeq: "?db\<lparr> scraped_posts :=
        scraped_posts ?db ++ map_of (map (\<lambda>p. (post_id p, p)) posts) \<rparr> =
      db\<lparr> scraped_posts :=
        scraped_posts db ++ map_of (map (\<lambda>p. (post_id p, p)) (p # posts)) \<rparr>"
    by (auto simp add: map_add_def fun_eq_iff split: option.splits)
  have "process_posts self job (p # posts) (db, posts_n, comments_n, errs) =
      process_posts self job posts (?db, posts_n + 1, comments_n, errs)"
    using keep p1 save by auto
  also note ih
  finally have eq: "process_posts self job (p # posts) (db, posts_n, comments_n, errs) =
      (?db\<lparr> scraped_posts :=
          scraped_posts ?db ++ map_of (map (\<lambda>p. (post_id p, p)) posts) \<rparr>,
       posts_n + 1 + int (length posts), comments_n, errs)" .
  have count: "posts_n + 1 + int (length posts) = posts_n + int (length (p # posts))"
    by simp
  show ?case
    by (simp only: eq dbeq count)
qed

text \<open>
  \<open>run_scraping_job\<close> takes and returns the database only, so the task of
  \<^verbatim>\<open>start_job\<close> keeps its entry while it runs and after it has finished.
\<close>

lemma task_runs_to_completion_keeps_entry:
  "dom (active_jobs (fst (task_runs_to_completion self db jid t_start t_end))) =
   dom (active_jobs self)"
  by (auto simp add: task_runs_to_completion_def split: option.splits if_splits)

text \<open>\<open>run_job_with_fallback\<close> ends by deleting the entry of its job.\<close>

lemma run_job_with_fallback_removes_entry:
  "active_jobs (fst (run_job_with_fallback self db job preferred t_start t_end)) =
   (active_jobs self)(job_id job := None)"
proof -
  have "snd (scrape_with_fallback self (job_platform job) (job_target job)
      (job_max_posts job) preferred) = self"
    by (simp add: scrape_with_fallback_def Let_def try_strategies_self split: option.splits)
  then show ?thesis
    by (auto simp add: run_job_with_fallback_def Let_def split: prod.splits sum.splits)
qed


lemma stop_job_active:
  "active_jobs self jid = Some t \<Longrightarrow>
   fst (stop_job self db jid now) = Inr True \<and>
   active_jobs (fst (snd (stop_job self db jid now))) = (active_jobs self)(jid := None) \<and>
   snd (snd (stop_job self db jid now)) =
     update_job_status db jid ''cancelled'' [Completed_at now]"
  by (simp add: stop_job_def)


text \<open>
  C3. \<open>create_job\<close> saves the job as pending and returns its identifier, and that is
  all: the manager it leaves is the one it found, so no task is registered in the table
  of active jobs, and the status of the new job says it is not running.
\<close>

theorem create_job_registers_no_task:
  "fst (snd (create_job self db uuid4 now platform target n with_comments kws)) = self
   \<and> fst job_created = Inr ''j1''
   \<and> active_jobs (fst (snd job_created)) ''j1'' = None
   \<and> map_option (\<lambda>i. (info_status i, is_running i))
        (get_job_status (fst (snd job_created)) (snd (snd job_created)) ''j1'') =
       Some (''pending'', False)"
proof (intro conjI)
  show "fst (snd (create_job self db uuid4 now platform target n with_comments kws)) = self"
    by (simp add: create_job_def Let_def split: prod.splits sum.splits)
  show "fst job_created = Inr ''j1''"
    by (simp add: job_created_def create_job_def save_job_def empty_db_def)
  show "active_jobs (fst (snd job_created)) ''j1'' = None"
    by (simp add: job_created_def create_job_def save_job_def empty_db_def
        manager_with_scrapers_def init_manager_def)
  show "map_option (\<lambda>i. (info_status i, is_running i))
      (get_job_status (fst (snd job_created)) (snd (snd job_created)) ''j1'') =
      Some (''pending'', False)"
    by (simp add: job_created_def create_job_def save_job_def empty_db_def
        manager_with_scrapers_def init_manager_def get_job_status_def db_get_job_status_def
        scraping_job.extend_def job_row.fields_def)
qed












lemma rust_db_eval:
  "rust_db =
     \<lparr> scraped_posts = Map.empty,
       scraping_jobs = [''j2'' \<mapsto>
         \<lparr> job_id = ''j2'', job_platform = REDDIT, job_target = ''programming'',
           job_max_posts = 100, include_comments = False, job_keywords = [''rust''],
           created_at = 0, status = ''pending'', posts_scraped = 0, comments_scraped = 0,
           errors = None, started_at = None, completed_at = None, success = False \<rparr>] \<rparr>"
  by (simp add: rust_db_def rust_job_def save_job_def empty_db_def
      scraping_job.extend_def job_row.fields_def)

text \<open>
  C7. The job has the keyword rust, and the adapter yields a post about Python and a
  post about Rust. \<open>run_job_with_fallback\<close> saves both and records two posts;
  \<open>run_scraping_job\<close>, on the same job and posts, saves the one that has the keyword and
  records one.
\<close>

theorem run_job_with_fallback_ignores_keywords:
  "\<not> matches_keywords ''I love Python'' (job_keywords rust_job)
   \<and> matches_keywords ''Rust is great'' (job_keywords rust_job)
   \<and> dom (scraped_posts (snd (run_job_with_fallback
        (manager_with [(WEB, stub_scraper (Yielded fetched_posts))]) rust_db rust_job None
        1 2))) = {''p1'', ''p2''}
   \<and> map_option (\<lambda>r. (status r, posts_scraped r))
        (scraping_jobs (snd (run_job_with_fallback
           (manager_with [(WEB, stub_scraper (Yielded fetched_posts))]) rust_db rust_job None
           1 2)) ''j2'') = Some (''completed'', 2)
   \<and> dom (scraped_posts (snd (run_scraping_job (stub_scraper (Yielded fetched_posts))
        rust_job 1 2 rust_db))) = {''p2''}
   \<and> map_option (\<lambda>r. (status r, posts_scraped r))
        (scraping_jobs (snd (run_scraping_job (stub_scraper (Yielded fetched_posts))
           rust_job 1 2 rust_db)) ''j2'') = Some (''completed'', 1)"
proof -
  have no: "\<not> matches_keywords ''I love Python'' [''rust'']"
    by (simp add: matches_keywords_def lower_def lower_char_def capital_letters_def
        small_letters_def)
  have yes: "matches_keywords ''Rust is great'' [''rust'']"
    by (simp add: matches_keywords_def lower_def lower_char_def capital_letters_def
        small_letters_def)
  have fetch: "scrape_with_fallback (manager_with [(WEB, stub_scraper (Yielded fetched_posts))])
      REDDIT ''programming'' 100 None =
      (Inr fetched_posts, manager_with [(WEB, stub_scraper (Yielded fetched_posts))])"
    by (simp add: scrape_with_fallback_def strategies_to_try_def default_order_def
        attempt_def manager_with_def stub_scraper_def fetched_posts_def Let_def)
  have a: "run_job_with_fallback (manager_with [(WEB, stub_scraper (Yielded fetched_posts))])
      rust_db rust_job None 1 2 =
      (manager_with [(WEB, stub_scraper (Yielded fetched_posts))],
       \<lparr> scraped_posts = [''p1'' \<mapsto> sample_post ''p1'' ''I love Python'',
           ''p2'' \<mapsto> sample_post ''p2'' ''Rust is great''],
         scraping_jobs = [''j2'' \<mapsto>
           \<lparr> job_id = ''j2'', job_platform = REDDIT, job_target = ''programming'',
             job_max_posts = 100, include_comments = False, job_keywords = [''rust''],
             created_at = 0, status = ''completed'', posts_scraped = 2,
             comments_scraped = 0, errors = None, started_at = Some 1,
             completed_at = Some 2, success = True \<rparr>] \<rparr>)"
    unfolding run_job_with_fallback_def
    by (simp add: rust_job_def fetch rust_db_eval update_job_status_def Let_def)
      (simp add: fetched_posts_def save_post_def sample_post_def manager_with_def)
  have b: "snd (run_scraping_job (stub_scraper (Yielded fetched_posts)) rust_job 1 2 rust_db) =
      \<lparr> scraped_posts = [''p2'' \<mapsto> sample_post ''p2'' ''Rust is great''],
        scraping_jobs = [''j2'' \<mapsto>
          \<lparr> job_id = ''j2'', job_platform = REDDIT, job_target = ''programming'',
            job_max_posts = 100, include_comments = False, job_keywords = [''rust''],
            created_at = 0, status = ''completed'', posts_scraped = 1,
            comments_scraped = 0, errors = Some [], started_at = Some 1,
            completed_at = Some 2, success = True \<rparr>] \<rparr>"
    by (simp add: run_scraping_job_def rust_job_def rust_db_eval update_job_status_def
        stub_scraper_def fetched_posts_def sample_post_def save_post_def no yes Let_def)
  show ?thesis
    unfolding a b by (auto simp add: rust_job_def no yes)
qed

subsection \<open>Saving posts\<close>

text \<open>
  C8, as the claim states it: saving a second record under the identifier of a stored
  post is not an error. It is one: the second save raises.
\<close>

theorem save_post_twice_counterexample:
  "\<not> (\<exists>saved. fst (save_post (snd (save_post empty_db (sample_post ''p1'' ''first fetch'')))
          (sample_post ''p1'' ''second fetch'')) = Inr saved)"
  by (simp add: save_post_def empty_db_def sample_post_def)

text \<open>
  C8, amended. When the first save of a post succeeds, a second save of a record with
  the same identifier raises \<open>IntegrityError\<close> and leaves the database as the first save
  left it: the table holds the first record under that identifier, whatever the second
  record was, and no other row has changed.
\<close>

theorem save_post_twice:
  "fst (save_post db first) = Inr saved \<and> post_id second = post_id first \<longrightarrow>
     saved = post_id first
     \<and> fst (save_post (snd (save_post db first)) second) =
         Inl (IntegrityError ''scraped_posts.id'')
     \<and> snd (save_post (snd (save_post db first)) second) = snd (save_post db first)
     \<and> scraped_posts (snd (save_post (snd (save_post db first)) second)) (post_id first) =
         Some first
     \<and> dom (scraped_posts (snd (save_post (snd (save_post db first)) second))) =
         insert (post_id first) (dom (scraped_posts db))"
  by (auto simp add: save_post_def split: if_splits)

theorem save_post_twice_witness:
  "fst (save_post (snd (save_post empty_db (sample_post ''p1'' ''first fetch'')))
          (sample_post ''p1'' ''second fetch'')) = Inl (IntegrityError ''scraped_posts.id'')
   \<and> scraped_posts (snd (save_post (snd (save_post empty_db (sample_post ''p1'' ''first fetch'')))
          (sample_post ''p1'' ''second fetch''))) ''p1'' = Some (sample_post ''p1'' ''first fetch'')
   \<and> dom (scraped_posts (snd (save_post (snd (save_post empty_db
          (sample_post ''p1'' ''first fetch''))) (sample_post ''p1'' ''second fetch'')))) = {''p1''}"
proof -
  have h: "fst (save_post empty_db (sample_post ''p1'' ''first fetch'')) = Inr ''p1'' \<and>
      post_id (sample_post ''p1'' ''second fetch'') = post_id (sample_post ''p1'' ''first fetch'')"
    by (simp add: save_post_def empty_db_def sample_post_def)
  have id: "post_id (sample_post ''p1'' ''first fetch'') = ''p1''"
    by (simp add: sample_post_def)
  have empty: "insert ''p1'' (dom (scraped_posts empty_db)) = {''p1''}"
    by (simp add: empty_db_def)
  from h save_post_twice [of empty_db "sample_post ''p1'' ''first fetch''" "''p1''"
      "sample_post ''p1'' ''second fetch''"]
  have r: "fst (save_post (snd (save_post empty_db (sample_post ''p1'' ''first fetch'')))
        (sample_post ''p1'' ''second fetch'')) = Inl (IntegrityError ''scraped_posts.id'')
    \<and> scraped_posts (snd (save_post (snd (save_post empty_db
        (sample_post ''p1'' ''first fetch''))) (sample_post ''p1'' ''second fetch'')))
        (post_id (sample_post ''p1'' ''first fetch'')) = Some (sample_post ''p1'' ''first fetch'')
    \<and> dom (scraped_posts (snd (save_post (snd (save_post empty_db
        (sample_post ''p1'' ''first fetch''))) (sample_post ''p1'' ''second fetch'')))) =
        insert (post_id (sample_post ''p1'' ''first fetch'')) (dom (scraped_posts empty_db))"
    by blast
  show ?thesis
    using r unfolding id empty .
qed

subsection \<open>The request wrapper\<close>

lemma retry_attempts:
  "attempt_number \<le> fst (snd (retry operation attempt_number slept))
   \<and> fst (snd (retry operation attempt_number slept)) \<le> max attempt_number stop_after_attempt"
proof (induction operation attempt_number slept rule: retry.induct)
  case (1 operation attempt_number slept)
  show ?case
  proof (cases "operation attempt_number")
    case (Inr v)
    then show ?thesis by simp
  next
    case (Inl e)
    show ?thesis
    proof (cases "retry_if_exception_type e \<and> \<not> stop_after_attempt \<le> attempt_number")
      case True
      with Inl 1 [of e] show ?thesis by (simp add: max_def)
    next
      case False
      with Inl show ?thesis by auto
    qed
  qed
qed

lemma retry_earlier_attempts:
  "attempt_number \<le> k \<Longrightarrow> k < fst (snd (retry operation attempt_number slept)) \<Longrightarrow>
   \<exists>e. operation k = Inl e \<and> retry_if_exception_type e"
proof (induction operation attempt_number slept rule: retry.induct)
  case (1 operation attempt_number slept)
  show ?case
  proof (cases "operation attempt_number")
    case (Inr v)
    with 1(2,3) show ?thesis by simp
  next
    case (Inl e)
    show ?thesis
    proof (cases "retry_if_exception_type e \<and> \<not> stop_after_attempt \<le> attempt_number")
      case True
      show ?thesis
      proof (cases "k = attempt_number")
        case True
        with Inl \<open>retry_if_exception_type e \<and> \<not> stop_after_attempt \<le> attempt_number\<close>
        show ?thesis by simp
      next
        case False
        with 1(2) have "attempt_number + 1 \<le> k" by simp
        moreover from True Inl 1(3)
        have "k < fst (snd (retry operation (attempt_number + 1)
            (slept @ [wait_exponential attempt_number])))"
          by simp
        ultimately show ?thesis
          using 1(1) [of e] Inl True by simp
      qed
    next
      case False
      with Inl 1(2,3) show ?thesis by (auto split: if_splits)
    qed
  qed
qed

lemma retry_slept:
  "snd (snd (retry operation attempt_number slept)) =
   slept @ map wait_exponential
     [attempt_number ..< fst (snd (retry operation attempt_number slept))]"
proof (induction operation attempt_number slept rule: retry.induct)
  case (1 operation attempt_number slept)
  show ?case
  proof (cases "operation attempt_number")
    case (Inr v)
    then show ?thesis by simp
  next
    case (Inl e)
    show ?thesis
    proof (cases "retry_if_exception_type e \<and> \<not> stop_after_attempt \<le> attempt_number")
      case True
      let ?rest = "retry operation (attempt_number + 1)
          (slept @ [wait_exponential attempt_number])"
      from True Inl have unfold: "retry operation attempt_number slept = ?rest"
        by simp
      have "attempt_number + 1 \<le> fst (snd ?rest)"
        using retry_attempts [of "attempt_number + 1" operation] by simp
      then have "[attempt_number ..< fst (snd ?rest)] =
          attempt_number # [attempt_number + 1 ..< fst (snd ?rest)]"
        by (simp add: upt_conv_Cons)
      moreover from True Inl 1 [of e]
      have "snd (snd ?rest) = (slept @ [wait_exponential attempt_number]) @
          map wait_exponential [attempt_number + 1 ..< fst (snd ?rest)]"
        by simp
      ultimately show ?thesis
        unfolding unfold by simp
    next
      case False
      with Inl show ?thesis by auto
    qed
  qed
qed

lemma retry_result:
  "fst (retry operation attempt_number slept) =
     (case operation (fst (snd (retry operation attempt_number slept))) of
        Inr v \<Rightarrow> Inr v
      | Inl e \<Rightarrow> if retry_if_exception_type e then Inl (RetryError e) else Inl e)"
proof (induction operation attempt_number slept rule: retry.induct)
  case (1 operation attempt_number slept)
  show ?case
  proof (cases "operation attempt_number")
    case (Inr v)
    then show ?thesis by simp
  next
    case (Inl e)
    show ?thesis
    proof (cases "retry_if_exception_type e \<and> \<not> stop_after_attempt \<le> attempt_number")
      case True
      with Inl 1 [of e] show ?thesis by simp
    next
      case False
      with Inl show ?thesis by auto
    qed
  qed
qed

lemma retry_gives_up_at_limit:
  "operation (fst (snd (retry operation attempt_number slept))) = Inl e \<Longrightarrow>
   retry_if_exception_type e \<Longrightarrow>
   stop_after_attempt \<le> fst (snd (retry operation attempt_number slept))"
proof (induction operation attempt_number slept rule: retry.induct)
  case (1 operation attempt_number slept)
  show ?case
  proof (cases "operation attempt_number")
    case (Inr v)
    with 1(2) show ?thesis by simp
  next
    case (Inl e0)
    show ?thesis
    proof (cases "retry_if_exception_type e0 \<and> \<not> stop_after_attempt \<le> attempt_number")
      case True
      with Inl 1(1) [of e0] 1(2,3) show ?thesis by simp
    next
      case False
      with Inl 1(2,3) show ?thesis by (auto split: if_splits)
    qed
  qed
qed

lemma wait_exponential_first_two:
  "wait_exponential 1 = 4" "wait_exponential 2 = 4"
  "wait_exponential (Suc 0) = 4" "wait_exponential (Suc (Suc 0)) = 4"
  by (simp_all add: wait_exponential_def)

lemma waits_of_attempts:
  "map wait_exponential [1 ..< 1] = replicate (1 - 1) 4"
  "map wait_exponential [1 ..< 2] = replicate (2 - 1) 4"
  "map wait_exponential [1 ..< 3] = replicate (3 - 1) 4"
  by code_simp+

text \<open>
  C6, as the claim states it: an operation that always fails with not found is tried
  once. The server answers 404 every time; \<^verbatim>\<open>raise_for_status\<close> turns the answer into a
  \<^verbatim>\<open>ClientResponseError\<close>, an \<^verbatim>\<open>aiohttp.ClientError\<close>, and the request is made three
  times.
\<close>

theorem not_found_is_retried_counterexample:
  "\<not> (fst (snd (make_request (\<lambda>k. Inr (response_with_status 404)))) = 1)"
  by (simp add: make_request_def make_request_body_def response_with_status_def
      stop_after_attempt_def)

text \<open>
  C6, amended. The wrapper retries exactly the failures that are an
  \<^verbatim>\<open>aiohttp.ClientError\<close> (a response error or a connection error) or an
  \<^verbatim>\<open>asyncio.TimeoutError\<close>, and every HTTP status of 400 or more, not found and the
  authentication failures among them, is a response error, while a status below 400
  is none. It makes at most three attempts, every attempt before the last having failed
  with a retried failure, with exponential backoff: after the failed attempt \<open>k\<close> it
  waits 2 to the power \<open>k - 1\<close> seconds, kept between 4 and 10, which is 4 seconds
  before each retry. The outcome is that of the last attempt: its value, or its
  exception as it is when that is no retried failure, or \<open>RetryError\<close> when it is one,
  which is the case after the third attempt only. So when the first attempt raises any
  other exception, that exception propagates after this one attempt. An operation that answers with a status of 400 or
  more every time is tried three times and ends in \<open>RetryError\<close>, as does any operation
  whose three attempts fail with retried failures. When the first two attempts fail with
  retried failures and the third succeeds, its value is returned after three attempts.
\<close>

theorem make_request_retries:
  "(retry_if_exception_type e \<longleftrightarrow>
      (\<exists>code. e = ClientResponseError code) \<or> (\<exists>msg. e = ClientConnectionError msg) \<or>
      e = TimeoutError)
   \<and> make_request_body (Inl e) = Inl e
   \<and> (400 \<le> resp_status r \<longrightarrow>
        make_request_body (Inr r) = Inl (ClientResponseError (resp_status r)))
   \<and> (resp_status r < 400 \<and> \<not> str_in ''application/json'' (resp_content_type r) \<longrightarrow>
        make_request_body (Inr r) = Inr (Text_body (resp_text r)))
   \<and> 1 \<le> fst (snd (make_request network)) \<and> fst (snd (make_request network)) \<le> 3
   \<and> (\<forall>k. 1 \<le> k \<and> k < fst (snd (make_request network)) \<longrightarrow>
        (\<exists>e'. make_request_body (network k) = Inl e' \<and> retry_if_exception_type e'))
   \<and> snd (snd (make_request network)) =
        map wait_exponential [1 ..< fst (snd (make_request network))]
   \<and> snd (snd (make_request network)) = replicate (fst (snd (make_request network)) - 1) 4
   \<and> wait_exponential k = max 4 (min (2 ^ (k - 1)) 10)
   \<and> fst (make_request network) =
        (case make_request_body (network (fst (snd (make_request network)))) of
           Inr v \<Rightarrow> Inr v
         | Inl e' \<Rightarrow> if retry_if_exception_type e' then Inl (RetryError e') else Inl e')
   \<and> (\<forall>e'. make_request_body (network (fst (snd (make_request network)))) = Inl e' \<and>
        retry_if_exception_type e' \<longrightarrow> fst (snd (make_request network)) = 3)
   \<and> (\<forall>e'. make_request_body (network 1) = Inl e' \<and> \<not> retry_if_exception_type e' \<longrightarrow>
        make_request network = (Inl e', 1, []))
   \<and> ((\<forall>k. \<exists>r'. network k = Inr r' \<and> 400 \<le> resp_status r') \<longrightarrow>
        (\<exists>r'. network 3 = Inr r' \<and>
          make_request network =
            (Inl (RetryError (ClientResponseError (resp_status r'))), 3, [4, 4])))
   \<and> (\<forall>e1 e2 v. make_request_body (network 1) = Inl e1 \<and> retry_if_exception_type e1 \<and>
        make_request_body (network 2) = Inl e2 \<and> retry_if_exception_type e2 \<and>
        make_request_body (network 3) = Inr v \<longrightarrow>
        make_request network = (Inr v, 3, [4, 4]))
   \<and> (\<forall>e1 e2 e3. make_request_body (network 1) = Inl e1 \<and> retry_if_exception_type e1 \<and>
        make_request_body (network 2) = Inl e2 \<and> retry_if_exception_type e2 \<and>
        make_request_body (network 3) = Inl e3 \<and> retry_if_exception_type e3 \<longrightarrow>
        make_request network = (Inl (RetryError e3), 3, [4, 4]))"
proof (intro conjI allI impI)
  show "retry_if_exception_type e \<longleftrightarrow>
      (\<exists>code. e = ClientResponseError code) \<or> (\<exists>msg. e = ClientConnectionError msg) \<or>
      e = TimeoutError"
    by (cases e) simp_all
  show "make_request_body (Inl e) = Inl e"
    by (simp add: make_request_body_def)
  show "wait_exponential k = max 4 (min (2 ^ (k - 1)) 10)"
    by (simp add: wait_exponential_def)
  show lo: "1 \<le> fst (snd (make_request network))"
    using retry_attempts [of 1 "\<lambda>k. make_request_body (network k)" "[]"]
    by (simp add: make_request_def)
  show hi: "fst (snd (make_request network)) \<le> 3"
    using retry_attempts [of 1 "\<lambda>k. make_request_body (network k)" "[]"]
    by (simp add: make_request_def stop_after_attempt_def)
  show waits: "snd (snd (make_request network)) =
      map wait_exponential [1 ..< fst (snd (make_request network))]"
    using retry_slept [of "\<lambda>k. make_request_body (network k)" 1 "[]"]
    by (simp add: make_request_def)
  from lo hi have "fst (snd (make_request network)) = 1 \<or>
      fst (snd (make_request network)) = 2 \<or> fst (snd (make_request network)) = 3"
    by arith
  then show "snd (snd (make_request network)) =
      replicate (fst (snd (make_request network)) - 1) 4"
    unfolding waits
    by (elim disjE) (simp_all only: waits_of_attempts)
  show "fst (make_request network) =
      (case make_request_body (network (fst (snd (make_request network)))) of
         Inr v \<Rightarrow> Inr v
       | Inl e' \<Rightarrow> if retry_if_exception_type e' then Inl (RetryError e') else Inl e')"
    using retry_result [of "\<lambda>k. make_request_body (network k)" 1 "[]"]
    by (simp add: make_request_def)
  fix e'
  assume "make_request_body (network (fst (snd (make_request network)))) = Inl e' \<and>
    retry_if_exception_type e'"
  then have "stop_after_attempt \<le> fst (snd (make_request network))"
    using retry_gives_up_at_limit [of "\<lambda>k. make_request_body (network k)" 1 "[]" e']
    by (simp add: make_request_def)
  with hi show "fst (snd (make_request network)) = 3"
    by (simp add: stop_after_attempt_def)
next
  assume "400 \<le> resp_status r"
  then show "make_request_body (Inr r) = Inl (ClientResponseError (resp_status r))"
    by (simp add: make_request_body_def)
next
  assume "resp_status r < 400 \<and> \<not> str_in ''application/json'' (resp_content_type r)"
  then show "make_request_body (Inr r) = Inr (Text_body (resp_text r))"
    by (simp add: make_request_body_def)
next
  fix k
  assume "1 \<le> k \<and> k < fst (snd (make_request network))"
  then show "\<exists>e'. make_request_body (network k) = Inl e' \<and> retry_if_exception_type e'"
    using retry_earlier_attempts [of 1 k "\<lambda>k. make_request_body (network k)" "[]"]
    by (simp add: make_request_def)
next
  fix e'
  assume "make_request_body (network 1) = Inl e' \<and> \<not> retry_if_exception_type e'"
  then show "make_request network = (Inl e', 1, [])"
    by (simp add: make_request_def)
next
  assume always: "\<forall>k. \<exists>r'. network k = Inr r' \<and> 400 \<le> resp_status r'"
  then obtain r1 r2 r3 where
    r1: "network 1 = Inr r1" "400 \<le> resp_status r1" and
    r2: "network 2 = Inr r2" "400 \<le> resp_status r2" and
    r3: "network 3 = Inr r3" "400 \<le> resp_status r3"
    by metis
  have "make_request network =
      (Inl (RetryError (ClientResponseError (resp_status r3))), 3, [4, 4])"
    using r1 r2 r3
    by (simp add: make_request_def make_request_body_def stop_after_attempt_def
        wait_exponential_first_two numeral_3_eq_3 numeral_2_eq_2)
  with r3 show "\<exists>r'. network 3 = Inr r' \<and> make_request network =
      (Inl (RetryError (ClientResponseError (resp_status r'))), 3, [4, 4])"
    by blast
next
  fix e1 e2 v
  assume "make_request_body (network 1) = Inl e1 \<and> retry_if_exception_type e1 \<and>
    make_request_body (network 2) = Inl e2 \<and> retry_if_exception_type e2 \<and>
    make_request_body (network 3) = Inr v"
  then show "make_request network = (Inr v, 3, [4, 4])"
    by (simp add: make_request_def stop_after_attempt_def wait_exponential_first_two
        numeral_3_eq_3 numeral_2_eq_2)
next
  fix e1 e2 e3
  assume "make_request_body (network 1) = Inl e1 \<and> retry_if_exception_type e1 \<and>
    make_request_body (network 2) = Inl e2 \<and> retry_if_exception_type e2 \<and>
    make_request_body (network 3) = Inl e3 \<and> retry_if_exception_type e3"
  then show "make_request network = (Inl (RetryError e3), 3, [4, 4])"
    by (simp add: make_request_def stop_after_attempt_def wait_exponential_first_two
        numeral_3_eq_3 numeral_2_eq_2)
qed

theorem make_request_retries_witness:
  "retry_if_exception_type (ClientResponseError 404)
   \<and> \<not> retry_if_exception_type (JSONDecodeError ''body'')
   \<and> make_request_body (Inr (response_with_status 400)) = Inl (ClientResponseError 400)
   \<and> make_request_body (Inr (response_with_status 399)) = Inr (Text_body ''body'')
   \<and> make_request no_session_network = (Inl (AttributeError ''get''), 1, [])
   \<and> make_request flaky_network = (Inr (Text_body ''body''), 3, [4, 4])
   \<and> (\<exists>e. make_request_body (flaky_network 2) = Inl e \<and> retry_if_exception_type e)
   \<and> make_request not_found_network = (Inl (RetryError (ClientResponseError 404)), 3, [4, 4])
   \<and> make_request timeout_network = (Inl (RetryError TimeoutError), 3, [4, 4])
   \<and> make_request bad_json_network = (Inl (JSONDecodeError ''body''), 3, [4, 4])"
proof (intro conjI)
  show "retry_if_exception_type (ClientResponseError 404)"
    using make_request_retries [where e = "ClientResponseError 404"] by blast
  show "\<not> retry_if_exception_type (JSONDecodeError ''body'')"
    using make_request_retries [where e = "JSONDecodeError ''body''"] by blast
next
  have "400 \<le> resp_status (response_with_status 400)"
    by (simp add: response_with_status_def)
  with make_request_retries [where r = "response_with_status 400"]
  have "make_request_body (Inr (response_with_status 400)) =
      Inl (ClientResponseError (resp_status (response_with_status 400)))"
    by blast
  then show "make_request_body (Inr (response_with_status 400)) =
      Inl (ClientResponseError 400)"
    by (simp add: response_with_status_def)
next
  have "resp_status (response_with_status 399) < 400 \<and>
      \<not> str_in ''application/json'' (resp_content_type (response_with_status 399))"
    by (simp add: response_with_status_def)
  with make_request_retries [where r = "response_with_status 399"]
  have "make_request_body (Inr (response_with_status 399)) =
      Inr (Text_body (resp_text (response_with_status 399)))"
    by blast
  then show "make_request_body (Inr (response_with_status 399)) = Inr (Text_body ''body'')"
    by (simp add: response_with_status_def)
next
  have "make_request_body (no_session_network 1) = Inl (AttributeError ''get'') \<and>
      \<not> retry_if_exception_type (AttributeError ''get'')"
    by (simp add: make_request_body_def no_session_network_def)
  with make_request_retries [where network = no_session_network]
  show "make_request no_session_network = (Inl (AttributeError ''get''), 1, [])"
    by blast
next
  have "make_request_body (flaky_network 1) = Inl TimeoutError \<and>
      retry_if_exception_type TimeoutError \<and>
      make_request_body (flaky_network 2) = Inl TimeoutError \<and>
      retry_if_exception_type TimeoutError \<and>
      make_request_body (flaky_network 3) = Inr (Text_body ''body'')"
    by (simp add: make_request_body_def flaky_network_def response_with_status_def)
  with make_request_retries [where network = flaky_network]
  show flaky: "make_request flaky_network = (Inr (Text_body ''body''), 3, [4, 4])"
    by blast
  then have "(1::nat) \<le> 2 \<and> 2 < fst (snd (make_request flaky_network))"
    by simp
  with make_request_retries [where network = flaky_network]
  show "\<exists>e. make_request_body (flaky_network 2) = Inl e \<and> retry_if_exception_type e"
    by blast
next
  have "\<forall>k. \<exists>r'. not_found_network k = Inr r' \<and> 400 \<le> resp_status r'"
    by (simp add: not_found_network_def response_with_status_def)
  with make_request_retries [where network = not_found_network]
  obtain r' where "not_found_network 3 = Inr r'"
    and "make_request not_found_network =
      (Inl (RetryError (ClientResponseError (resp_status r'))), 3, [4, 4])"
    by blast
  then show "make_request not_found_network =
      (Inl (RetryError (ClientResponseError 404)), 3, [4, 4])"
    by (auto simp add: not_found_network_def response_with_status_def)
next
  have "make_request_body (timeout_network 1) = Inl TimeoutError \<and>
      retry_if_exception_type TimeoutError \<and>
      make_request_body (timeout_network 2) = Inl TimeoutError \<and>
      retry_if_exception_type TimeoutError \<and>
      make_request_body (timeout_network 3) = Inl TimeoutError \<and>
      retry_if_exception_type TimeoutError"
    by (simp add: make_request_body_def timeout_network_def)
  with make_request_retries [where network = timeout_network]
  show "make_request timeout_network = (Inl (RetryError TimeoutError), 3, [4, 4])"
    by blast
next
  have n: "fst (snd (make_request bad_json_network)) = 3"
    by (simp add: make_request_def make_request_body_def bad_json_network_def
        stop_after_attempt_def numeral_3_eq_3 numeral_2_eq_2)
  have last: "make_request_body (bad_json_network 3) = Inl (JSONDecodeError ''body'')"
    by (simp add: make_request_body_def bad_json_network_def)
  from make_request_retries [where network = bad_json_network]
  have "fst (make_request bad_json_network) =
      (case make_request_body (bad_json_network (fst (snd (make_request bad_json_network)))) of
         Inr v \<Rightarrow> Inr v
       | Inl e' \<Rightarrow> if retry_if_exception_type e' then Inl (RetryError e') else Inl e')"
    and "snd (snd (make_request bad_json_network)) =
      replicate (fst (snd (make_request bad_json_network)) - 1) 4"
    by blast+
  then have "fst (make_request bad_json_network) = Inl (JSONDecodeError ''body'')"
    and "snd (snd (make_request bad_json_network)) = [4, 4]"
    by (simp_all add: n last numeral_2_eq_2)
  with n show "make_request bad_json_network = (Inl (JSONDecodeError ''body''), 3, [4, 4])"
    by (simp add: prod_eq_iff)
qed

end
